theory Spec2Isabelle
  imports Main
begin

unbundle bit_operations_syntax

section \<open>Python values\<close>

text \<open>
  The values that travel between the host platform, the entity and the client:
  \<^verbatim>\<open>None\<close>, booleans, integers, strings, lists and dictionaries. A dictionary is an
  association list in insertion order. Floating-point numbers are not modelled.
\<close>

datatype pyval =
    PNone
  | PBool bool
  | PInt int
  | PStr string
  | PList "pyval list"
  | PDict "(pyval \<times> pyval) list"

type_synonym dict = "(pyval \<times> pyval) list"

text \<open>
  The exceptions of the model: Python's \<^verbatim>\<open>TypeError\<close>, and whatever the client raises
  (the entity has no handler, so it only passes such an exception on).
\<close>

datatype error = TypeError | ClientError string

text \<open>
  \<^verbatim>\<open>d.get(k)\<close> for a string literal \<^verbatim>\<open>k\<close>: a string is hashable and equal to no key but
  the same string, so the call never raises; a missing key gives \<^verbatim>\<open>None\<close>.
\<close>

definition dict_get :: "dict \<Rightarrow> string \<Rightarrow> pyval" where
  "dict_get d k = (case map_of d (PStr k) of None \<Rightarrow> PNone | Some v \<Rightarrow> v)"

text \<open>\<^verbatim>\<open>"..." + x\<close>: string concatenation, a \<^verbatim>\<open>TypeError\<close> unless \<^verbatim>\<open>x\<close> is a string.\<close>

fun str_add :: "string \<Rightarrow> pyval \<Rightarrow> error + string" where
  "str_add s (PStr t) = Inr (s @ t)"
| "str_add s PNone = Inl TypeError"
| "str_add s (PBool b) = Inl TypeError"
| "str_add s (PInt i) = Inl TypeError"
| "str_add s (PList xs) = Inl TypeError"
| "str_add s (PDict d) = Inl TypeError"

text \<open>\<^verbatim>\<open>x is not None\<close> and \<^verbatim>\<open>isinstance(x, dict)\<close>.\<close>

fun is_not_None :: "pyval \<Rightarrow> bool" where
  "is_not_None PNone = False"
| "is_not_None _ = True"

fun isinstance_dict :: "pyval \<Rightarrow> bool" where
  "isinstance_dict (PDict d) = True"
| "isinstance_dict _ = False"

fun dict_of :: "pyval \<Rightarrow> dict" where
  "dict_of (PDict d) = d"
| "dict_of _ = []"

section \<open>The lookup tables of the api module\<close>

text \<open>
  \<^verbatim>\<open>STATE_CODE_TO_STRING\<close> and \<^verbatim>\<open>FAN_SPEEDS\<close> are imported from the api module; they map
  integer device codes to labels. Every operation that reads one takes it as a
  parameter: a dictionary in insertion order, whose keys are distinct.

  \<^verbatim>\<open>T.get(k)\<close> hashes the key first: a list or a dictionary is unhashable and the call
  raises \<^verbatim>\<open>TypeError\<close>. A hashable key is then compared with the integer keys: an
  integer with itself, a boolean as the integer 0 or 1, and \<^verbatim>\<open>None\<close> and strings equal
  no integer. The result is the label, or \<^verbatim>\<open>None\<close> (here \<open>None\<close>) when no key matches.
\<close>

type_synonym table = "(int \<times> string) list"

fun hashable :: "pyval \<Rightarrow> bool" where
  "hashable (PList xs) = False"
| "hashable (PDict d) = False"
| "hashable _ = True"

fun table_lookup :: "table \<Rightarrow> pyval \<Rightarrow> string option" where
  "table_lookup T (PInt i) = map_of T i"
| "table_lookup T (PBool b) = map_of T (if b then 1 else 0)"
| "table_lookup T _ = None"

definition table_get :: "table \<Rightarrow> pyval \<Rightarrow> error + string option" where
  "table_get T k = (if hashable k then Inr (table_lookup T k) else Inl TypeError)"

section \<open>The client\<close>

text \<open>
  \<^verbatim>\<open>RoborockClient.send_request(device_id, command, params, wait)\<close> belongs to the api
  module. A request is the four arguments of one call. The client is a parameter: a
  function from the requests it has received so far and the current request to what
  the call does, returning a value (\<open>Inr\<close>) or raising (\<open>Inl\<close>). The client's state is
  the list of requests it has received, oldest first.
\<close>

record request =
  device_id :: pyval
  command :: pyval
  params :: pyval
  wait_response :: bool

type_synonym client = "request list \<Rightarrow> request \<Rightarrow> error + pyval"

definition send_request ::
  "client \<Rightarrow> request list \<Rightarrow> request \<Rightarrow> (error + pyval) \<times> request list" where
  "send_request cl log r = (cl log r, log @ [r])"

section \<open>The entity\<close>

record RoborockVacuum =
  self_name :: pyval
  self_device :: dict
  self_status :: dict

definition init :: "dict \<Rightarrow> RoborockVacuum" where
  "init device =
     \<lparr>self_name = dict_get device ''name'', self_device = device, self_status = []\<rparr>"

definition send ::
  "client \<Rightarrow> RoborockVacuum \<Rightarrow> request list \<Rightarrow> pyval \<Rightarrow> pyval
     \<Rightarrow> (error + pyval) \<times> request list" where
  "send cl self log cmd ps =
     send_request cl log
       \<lparr>device_id = dict_get (self_device self) ''duid'', command = cmd, params = ps,
        wait_response = True\<rparr>"

text \<open>The request that \<open>send\<close> builds for a command and its parameters.\<close>

abbreviation sent :: "RoborockVacuum \<Rightarrow> string \<Rightarrow> pyval \<Rightarrow> request" where
  "sent self kw ps \<equiv>
     \<lparr>device_id = dict_get (self_device self) ''duid'', command = PStr kw, params = ps,
      wait_response = True\<rparr>"

definition update ::
  "client \<Rightarrow> RoborockVacuum \<Rightarrow> request list
     \<Rightarrow> (error + unit) \<times> RoborockVacuum \<times> request list" where
  "update cl self log =
     (case send cl self log (PStr ''get_status'') PNone of
        (Inl e, log') \<Rightarrow> (Inl e, self, log')
      | (Inr updated_status, log') \<Rightarrow>
          (if is_not_None updated_status \<and> isinstance_dict updated_status
           then (Inr (), self\<lparr>self_status := dict_of updated_status\<rparr>, log')
           else (Inr (), self, log')))"

text \<open>
  \<^verbatim>\<open>VacuumEntityFeature\<close> is the host platform's enumeration of integer flags. Its
  members are listed here; their integer values are a parameter \<open>flag\<close> of
  \<open>supported_features\<close>, which adds them up as integers.
\<close>

datatype VacuumEntityFeature =
    TURN_ON | TURN_OFF | PAUSE | STOP | RETURN_HOME | FAN_SPEED | BATTERY | STATUS
  | SEND_COMMAND | LOCATE | CLEAN_SPOT | MAP | STATE | START

definition supported_features :: "(VacuumEntityFeature \<Rightarrow> int) \<Rightarrow> RoborockVacuum \<Rightarrow> int" where
  "supported_features flag self =
     flag TURN_ON + flag TURN_OFF + flag PAUSE + flag STOP + flag RETURN_HOME
     + flag FAN_SPEED + flag BATTERY + flag STATUS + flag SEND_COMMAND + flag LOCATE
     + flag CLEAN_SPOT + flag STATE + flag START + flag MAP"

text \<open>
  The values that the host platform (Home Assistant's vacuum component) gives the flags:
  one bit each.
\<close>

fun VacuumEntityFeature_value :: "VacuumEntityFeature \<Rightarrow> int" where
  "VacuumEntityFeature_value TURN_ON = 1"
| "VacuumEntityFeature_value TURN_OFF = 2"
| "VacuumEntityFeature_value PAUSE = 4"
| "VacuumEntityFeature_value STOP = 8"
| "VacuumEntityFeature_value RETURN_HOME = 16"
| "VacuumEntityFeature_value FAN_SPEED = 32"
| "VacuumEntityFeature_value BATTERY = 64"
| "VacuumEntityFeature_value STATUS = 128"
| "VacuumEntityFeature_value SEND_COMMAND = 256"
| "VacuumEntityFeature_value LOCATE = 512"
| "VacuumEntityFeature_value CLEAN_SPOT = 1024"
| "VacuumEntityFeature_value MAP = 2048"
| "VacuumEntityFeature_value STATE = 4096"
| "VacuumEntityFeature_value START = 8192"

definition name :: "RoborockVacuum \<Rightarrow> pyval" where
  "name self = self_name self"

definition icon :: "RoborockVacuum \<Rightarrow> string" where
  "icon self = ''mdi:robot-vacuum''"

definition unique_id :: "RoborockVacuum \<Rightarrow> error + string" where
  "unique_id self = str_add ''vacuum.'' (dict_get (self_device self) ''duid'')"

definition status :: "table \<Rightarrow> RoborockVacuum \<Rightarrow> error + string option" where
  "status STATE_CODE_TO_STRING self =
     table_get STATE_CODE_TO_STRING (dict_get (self_status self) ''state'')"

definition state :: "table \<Rightarrow> RoborockVacuum \<Rightarrow> error + string option" where
  "state STATE_CODE_TO_STRING self = status STATE_CODE_TO_STRING self"

definition battery_level :: "RoborockVacuum \<Rightarrow> pyval" where
  "battery_level self = dict_get (self_status self) ''battery''"

definition fan_speed :: "table \<Rightarrow> RoborockVacuum \<Rightarrow> error + string option" where
  "fan_speed FAN_SPEEDS self = table_get FAN_SPEEDS (dict_get (self_status self) ''fan_power'')"

definition fan_speed_list :: "table \<Rightarrow> RoborockVacuum \<Rightarrow> string list" where
  "fan_speed_list FAN_SPEEDS self = map snd FAN_SPEEDS"

definition map' ::
  "client \<Rightarrow> RoborockVacuum \<Rightarrow> request list \<Rightarrow> (error + pyval) \<times> request list" where
  "map' cl self log = send cl self log (PStr ''get_map_v1'') PNone"

text \<open>
  A method whose body is the one statement \<^verbatim>\<open>self.send(...)\<close> drops the value of the call
  and returns \<^verbatim>\<open>None\<close>; an exception of the call leaves the method as it is.
\<close>

definition discard_result ::
  "(error + pyval) \<times> request list \<Rightarrow> (error + unit) \<times> request list" where
  "discard_result r = (case r of (Inl e, log') \<Rightarrow> (Inl e, log') | (Inr v, log') \<Rightarrow> (Inr (), log'))"

definition start ::
  "client \<Rightarrow> RoborockVacuum \<Rightarrow> request list \<Rightarrow> (error + unit) \<times> request list" where
  "start cl self log = discard_result (send cl self log (PStr ''app_start'') PNone)"

definition pause ::
  "client \<Rightarrow> RoborockVacuum \<Rightarrow> request list \<Rightarrow> (error + unit) \<times> request list" where
  "pause cl self log = discard_result (send cl self log (PStr ''app_stop'') PNone)"

definition stop ::
  "client \<Rightarrow> RoborockVacuum \<Rightarrow> request list \<Rightarrow> (error + unit) \<times> request list" where
  "stop cl self log = discard_result (send cl self log (PStr ''app_stop'') PNone)"

definition return_to_base ::
  "client \<Rightarrow> RoborockVacuum \<Rightarrow> request list \<Rightarrow> (error + unit) \<times> request list" where
  "return_to_base cl self log = discard_result (send cl self log (PStr ''app_charge'') PNone)"

definition clean_spot ::
  "client \<Rightarrow> RoborockVacuum \<Rightarrow> request list \<Rightarrow> (error + unit) \<times> request list" where
  "clean_spot cl self log = discard_result (send cl self log (PStr ''app_spot'') PNone)"

definition locate ::
  "client \<Rightarrow> RoborockVacuum \<Rightarrow> request list \<Rightarrow> (error + unit) \<times> request list" where
  "locate cl self log = discard_result (send cl self log (PStr ''find_me'') PNone)"

definition set_fan_speed ::
  "table \<Rightarrow> client \<Rightarrow> RoborockVacuum \<Rightarrow> request list \<Rightarrow> string
     \<Rightarrow> (error + unit) \<times> request list" where
  "set_fan_speed FAN_SPEEDS cl self log speed =
     discard_result
       (send cl self log (PStr ''set_custom_mode'')
          (PList [PInt k. (k, v) \<leftarrow> FAN_SPEEDS, v = speed]))"

definition send_command ::
  "client \<Rightarrow> RoborockVacuum \<Rightarrow> request list \<Rightarrow> pyval \<Rightarrow> pyval
     \<Rightarrow> (error + pyval) \<times> request list" where
  "send_command cl self log cmd ps = send cl self log cmd ps"

definition start_pause ::
  "client \<Rightarrow> RoborockVacuum \<Rightarrow> request list \<Rightarrow> (error + unit) \<times> request list" where
  "start_pause cl self log = discard_result (send cl self log (PStr ''app_pause'') PNone)"

section \<open>The identity string\<close>

lemma str_add_Inr: "str_add s v = Inr r \<Longrightarrow> \<exists>t. v = PStr t \<and> r = s @ t"
  by (cases v) auto

text \<open>
  C4. The identity string depends on the descriptor only through the value that
  \<^verbatim>\<open>get("duid")\<close> reads: two entities whose descriptors give the same value there have
  the same identity, whatever the other descriptor fields, the names and the snapshots
  are; a descriptor whose duid is the string \<open>abc123\<close> gives \<open>vacuum.abc123\<close>, and in
  general a string duid \<open>s\<close> gives \<open>vacuum.\<close> followed by \<open>s\<close>.
\<close>

theorem unique_id_depends_only_on_duid:
  "(dict_get (self_device a) ''duid'' = dict_get (self_device b) ''duid''
      \<longrightarrow> unique_id a = unique_id b)
   \<and> (dict_get (self_device a) ''duid'' = PStr ''abc123''
      \<longrightarrow> unique_id a = Inr ''vacuum.abc123'')
   \<and> (\<forall>s. dict_get (self_device a) ''duid'' = PStr s \<longrightarrow> unique_id a = Inr (''vacuum.'' @ s))"
  by (simp add: unique_id_def)

theorem unique_id_depends_only_on_duid_witness:
  "unique_id \<lparr>self_name = PStr ''Rocky'',
              self_device = [(PStr ''name'', PStr ''Rocky''), (PStr ''duid'', PStr ''abc123'')],
              self_status = [(PStr ''state'', PInt 8)]\<rparr>
   = unique_id \<lparr>self_name = PNone,
                self_device = [(PStr ''duid'', PStr ''abc123''), (PStr ''model'', PStr ''s7'')],
                self_status = []\<rparr>
   \<and> unique_id \<lparr>self_name = PStr ''Rocky'',
              self_device = [(PStr ''name'', PStr ''Rocky''), (PStr ''duid'', PStr ''abc123'')],
              self_status = [(PStr ''state'', PInt 8)]\<rparr>
   = Inr ''vacuum.abc123''"
  using unique_id_depends_only_on_duid
    [of "\<lparr>self_name = PStr ''Rocky'',
           self_device = [(PStr ''name'', PStr ''Rocky''), (PStr ''duid'', PStr ''abc123'')],
           self_status = [(PStr ''state'', PInt 8)]\<rparr>"
        "\<lparr>self_name = PNone,
           self_device = [(PStr ''duid'', PStr ''abc123''), (PStr ''model'', PStr ''s7'')],
           self_status = []\<rparr>"]
  by (auto simp: dict_get_def)

text \<open>
  C10. Reading the identity of an entity whose descriptor has no \<open>duid\<close> entry raises
  a \<^verbatim>\<open>TypeError\<close> (the concatenation of a string and \<^verbatim>\<open>None\<close>), and whenever the read
  returns a string the descriptor has a \<open>duid\<close> entry, a string, which the result ends
  with.
\<close>

theorem unique_id_raises_without_duid:
  "(map_of (self_device self) (PStr ''duid'') = None \<longrightarrow> unique_id self = Inl TypeError)
   \<and> (\<forall>r. unique_id self = Inr r \<longrightarrow>
        (\<exists>t. map_of (self_device self) (PStr ''duid'') = Some (PStr t) \<and> r = ''vacuum.'' @ t))"
proof (intro conjI allI impI)
  assume "map_of (self_device self) (PStr ''duid'') = None"
  then show "unique_id self = Inl TypeError"
    by (simp add: unique_id_def dict_get_def)
next
  fix r
  assume "unique_id self = Inr r"
  then obtain t where t: "dict_get (self_device self) ''duid'' = PStr t" "r = ''vacuum.'' @ t"
    unfolding unique_id_def by (blast dest: str_add_Inr)
  from t(1) have "map_of (self_device self) (PStr ''duid'') = Some (PStr t)"
    by (auto simp: dict_get_def split: option.splits)
  with t(2) show "\<exists>t. map_of (self_device self) (PStr ''duid'') = Some (PStr t) \<and> r = ''vacuum.'' @ t"
    by blast
qed

theorem unique_id_raises_without_duid_witness:
  "map_of [(PStr ''name'', PStr ''Rocky'')] (PStr ''duid'') = None
   \<and> unique_id \<lparr>self_name = PStr ''Rocky'', self_device = [(PStr ''name'', PStr ''Rocky'')],
                self_status = []\<rparr> = Inl TypeError"
  using unique_id_raises_without_duid
    [of "\<lparr>self_name = PStr ''Rocky'', self_device = [(PStr ''name'', PStr ''Rocky'')],
           self_status = []\<rparr>"]
  by simp

section \<open>Requests and the client's log\<close>

lemma send_eq:
  "send cl self log cmd ps =
     (cl log \<lparr>device_id = dict_get (self_device self) ''duid'', command = cmd, params = ps,
               wait_response = True\<rparr>,
      log @ [\<lparr>device_id = dict_get (self_device self) ''duid'', command = cmd, params = ps,
               wait_response = True\<rparr>])"
  by (simp add: send_def send_request_def)

lemma discard_result_snd: "snd (discard_result r) = snd r"
  by (cases r; cases "fst r") (auto simp: discard_result_def)

lemma discard_result_returned: "fst r = Inr v \<Longrightarrow> fst (discard_result r) = Inr ()"
  by (cases r) (auto simp: discard_result_def)

lemma discard_result_raised: "fst r = Inl e \<Longrightarrow> fst (discard_result r) = Inl e"
  by (cases r) (auto simp: discard_result_def)

lemma fixed_command_log:
  "snd (discard_result (send cl self log (PStr kw) ps)) = log @ [sent self kw ps]"
  by (simp add: discard_result_snd send_eq)

lemma fixed_command_returns:
  "cl log (sent self kw ps) = Inr v \<Longrightarrow>
     fst (discard_result (send cl self log (PStr kw) ps)) = Inr ()"
  by (rule discard_result_returned [where v = v]) (simp add: send_eq)

lemma fixed_command_raises:
  "cl log (sent self kw ps) = Inl e \<Longrightarrow>
     fst (discard_result (send cl self log (PStr kw) ps)) = Inl e"
  by (rule discard_result_raised) (simp add: send_eq)

text \<open>The passthrough forwards the caller's command and parameters as they are.\<close>

lemma send_command_forwards:
  "send_command cl self log cmd ps =
     (cl log \<lparr>device_id = dict_get (self_device self) ''duid'', command = cmd, params = ps,
               wait_response = True\<rparr>,
      log @ [\<lparr>device_id = dict_get (self_device self) ''duid'', command = cmd, params = ps,
               wait_response = True\<rparr>])"
  by (simp add: send_command_def send_eq)

section \<open>Refreshing the snapshot\<close>

text \<open>An exception of the client leaves \<open>update\<close> as it is; the snapshot stays.\<close>

lemma update_client_raises:
  "cl log (sent self ''get_status'' PNone) = Inl e \<Longrightarrow>
     update cl self log = (Inl e, self, log @ [sent self ''get_status'' PNone])"
  by (simp add: update_def send_eq)

lemma update_client_returns:
  assumes "cl log (sent self ''get_status'' PNone) = Inr v"
  shows "\<exists>self'. update cl self log = (Inr (), self', log @ [sent self ''get_status'' PNone])
           \<and> (\<forall>d. v = PDict d \<longrightarrow> self' = self\<lparr>self_status := d\<rparr>)
           \<and> ((\<forall>d. v \<noteq> PDict d) \<longrightarrow> self' = self)"
  using assms by (cases v) (simp_all add: update_def send_eq)

text \<open>
  The claim C1 as stated, that no exception leaves \<open>update\<close> whatever the client's call
  does, fails when the call raises: \<open>update\<close> has no handler, and the client's
  exception is the outcome of \<open>update\<close>.
\<close>

theorem update_client_exception_counterexample:
  "update (\<lambda>log r. Inl (ClientError ''timeout''))
     \<lparr>self_name = PNone, self_device = [(PStr ''duid'', PStr ''abc123'')],
      self_status = [(PStr ''battery'', PInt 50)]\<rparr> []
   = (Inl (ClientError ''timeout''),
      \<lparr>self_name = PNone, self_device = [(PStr ''duid'', PStr ''abc123'')],
       self_status = [(PStr ''battery'', PInt 50)]\<rparr>,
      [\<lparr>device_id = PStr ''abc123'', command = PStr ''get_status'', params = PNone,
        wait_response = True\<rparr>])"
  by (simp add: update_def send_eq dict_get_def)

text \<open>
  C1, amended. Whatever the prior snapshot and the log are, \<open>update\<close> sends the one
  \<open>get_status\<close> request. Whatever value the client returns for it, \<open>update\<close> returns
  normally: when the value is a dictionary the entity is the old one with the snapshot
  replaced by that dictionary (nothing of the old snapshot is kept), and when it is
  anything else, \<^verbatim>\<open>None\<close> included, the entity is unchanged. When the client's call
  raises, the entity is unchanged too and the exception leaves \<open>update\<close>.
\<close>

theorem update_replaces_snapshot_iff_mapping:
  "(\<forall>v. cl log (sent self ''get_status'' PNone) = Inr v \<longrightarrow>
      (\<exists>self'. update cl self log = (Inr (), self', log @ [sent self ''get_status'' PNone])
           \<and> (\<forall>d. v = PDict d \<longrightarrow> self' = self\<lparr>self_status := d\<rparr>)
           \<and> ((\<forall>d. v \<noteq> PDict d) \<longrightarrow> self' = self)))
   \<and> (\<forall>e. cl log (sent self ''get_status'' PNone) = Inl e \<longrightarrow>
        update cl self log = (Inl e, self, log @ [sent self ''get_status'' PNone]))"
  by (intro conjI allI impI update_client_returns update_client_raises)

theorem update_replaces_snapshot_iff_mapping_witness:
  "update (\<lambda>log r. Inr (PDict [(PStr ''state'', PInt 8)]))
     \<lparr>self_name = PNone, self_device = [(PStr ''duid'', PStr ''abc123'')],
      self_status = [(PStr ''battery'', PInt 50)]\<rparr> []
   = (Inr (),
      \<lparr>self_name = PNone, self_device = [(PStr ''duid'', PStr ''abc123'')],
       self_status = [(PStr ''state'', PInt 8)]\<rparr>,
      [\<lparr>device_id = PStr ''abc123'', command = PStr ''get_status'', params = PNone,
        wait_response = True\<rparr>])
   \<and> update (\<lambda>log r. Inr PNone)
     \<lparr>self_name = PNone, self_device = [(PStr ''duid'', PStr ''abc123'')],
      self_status = [(PStr ''battery'', PInt 50)]\<rparr> []
   = (Inr (),
      \<lparr>self_name = PNone, self_device = [(PStr ''duid'', PStr ''abc123'')],
       self_status = [(PStr ''battery'', PInt 50)]\<rparr>,
      [\<lparr>device_id = PStr ''abc123'', command = PStr ''get_status'', params = PNone,
        wait_response = True\<rparr>])
   \<and> update (\<lambda>log r. Inl (ClientError ''offline''))
     \<lparr>self_name = PNone, self_device = [(PStr ''duid'', PStr ''abc123'')],
      self_status = [(PStr ''battery'', PInt 50)]\<rparr> []
   = (Inl (ClientError ''offline''),
      \<lparr>self_name = PNone, self_device = [(PStr ''duid'', PStr ''abc123'')],
       self_status = [(PStr ''battery'', PInt 50)]\<rparr>,
      [\<lparr>device_id = PStr ''abc123'', command = PStr ''get_status'', params = PNone,
        wait_response = True\<rparr>])"
  using
    update_replaces_snapshot_iff_mapping
      [of "\<lambda>log r. Inr (PDict [(PStr ''state'', PInt 8)])" "[]"
          "\<lparr>self_name = PNone, self_device = [(PStr ''duid'', PStr ''abc123'')],
             self_status = [(PStr ''battery'', PInt 50)]\<rparr>"]
    update_replaces_snapshot_iff_mapping
      [of "\<lambda>log r. Inr PNone" "[]"
          "\<lparr>self_name = PNone, self_device = [(PStr ''duid'', PStr ''abc123'')],
             self_status = [(PStr ''battery'', PInt 50)]\<rparr>"]
    update_replaces_snapshot_iff_mapping
      [of "\<lambda>log r. Inl (ClientError ''offline'')" "[]"
          "\<lparr>self_name = PNone, self_device = [(PStr ''duid'', PStr ''abc123'')],
             self_status = [(PStr ''battery'', PInt 50)]\<rparr>"]
  by (auto simp: dict_get_def)

section \<open>The fixed commands\<close>

text \<open>
  C6. Each of \<open>start\<close>, \<open>pause\<close>, \<open>stop\<close>, \<open>return_to_base\<close>, \<open>clean_spot\<close>, \<open>locate\<close>
  and \<open>start_pause\<close> adds exactly one request to the client's log, whatever the entity
  and the log are: its own fixed keyword, with \<^verbatim>\<open>None\<close> as the parameters. Whatever value
  the client returns for that request, the operation returns \<^verbatim>\<open>None\<close> (the unit value).
\<close>

theorem commands_forward_one_keyword:
  "snd (start cl self log) = log @ [sent self ''app_start'' PNone]
   \<and> snd (pause cl self log) = log @ [sent self ''app_stop'' PNone]
   \<and> snd (stop cl self log) = log @ [sent self ''app_stop'' PNone]
   \<and> snd (return_to_base cl self log) = log @ [sent self ''app_charge'' PNone]
   \<and> snd (clean_spot cl self log) = log @ [sent self ''app_spot'' PNone]
   \<and> snd (locate cl self log) = log @ [sent self ''find_me'' PNone]
   \<and> snd (start_pause cl self log) = log @ [sent self ''app_pause'' PNone]
   \<and> (\<forall>v. cl log (sent self ''app_start'' PNone) = Inr v \<longrightarrow> fst (start cl self log) = Inr ())
   \<and> (\<forall>v. cl log (sent self ''app_stop'' PNone) = Inr v \<longrightarrow> fst (pause cl self log) = Inr ())
   \<and> (\<forall>v. cl log (sent self ''app_stop'' PNone) = Inr v \<longrightarrow> fst (stop cl self log) = Inr ())
   \<and> (\<forall>v. cl log (sent self ''app_charge'' PNone) = Inr v
          \<longrightarrow> fst (return_to_base cl self log) = Inr ())
   \<and> (\<forall>v. cl log (sent self ''app_spot'' PNone) = Inr v
          \<longrightarrow> fst (clean_spot cl self log) = Inr ())
   \<and> (\<forall>v. cl log (sent self ''find_me'' PNone) = Inr v \<longrightarrow> fst (locate cl self log) = Inr ())
   \<and> (\<forall>v. cl log (sent self ''app_pause'' PNone) = Inr v
          \<longrightarrow> fst (start_pause cl self log) = Inr ())"
  unfolding start_def pause_def stop_def return_to_base_def clean_spot_def locate_def
    start_pause_def
  by (intro conjI allI impI fixed_command_log fixed_command_returns)

theorem commands_forward_one_keyword_witness:
  "start (\<lambda>log r. Inr (PStr ''ok''))
     \<lparr>self_name = PNone, self_device = [(PStr ''duid'', PStr ''abc123'')], self_status = []\<rparr> []
   = (Inr (), [\<lparr>device_id = PStr ''abc123'', command = PStr ''app_start'', params = PNone,
                wait_response = True\<rparr>])
   \<and> pause (\<lambda>log r. Inr (PStr ''ok''))
     \<lparr>self_name = PNone, self_device = [(PStr ''duid'', PStr ''abc123'')], self_status = []\<rparr> []
   = (Inr (), [\<lparr>device_id = PStr ''abc123'', command = PStr ''app_stop'', params = PNone,
                wait_response = True\<rparr>])
   \<and> stop (\<lambda>log r. Inr (PStr ''ok''))
     \<lparr>self_name = PNone, self_device = [(PStr ''duid'', PStr ''abc123'')], self_status = []\<rparr> []
   = (Inr (), [\<lparr>device_id = PStr ''abc123'', command = PStr ''app_stop'', params = PNone,
                wait_response = True\<rparr>])
   \<and> return_to_base (\<lambda>log r. Inr (PStr ''ok''))
     \<lparr>self_name = PNone, self_device = [(PStr ''duid'', PStr ''abc123'')], self_status = []\<rparr> []
   = (Inr (), [\<lparr>device_id = PStr ''abc123'', command = PStr ''app_charge'', params = PNone,
                wait_response = True\<rparr>])
   \<and> clean_spot (\<lambda>log r. Inr (PStr ''ok''))
     \<lparr>self_name = PNone, self_device = [(PStr ''duid'', PStr ''abc123'')], self_status = []\<rparr> []
   = (Inr (), [\<lparr>device_id = PStr ''abc123'', command = PStr ''app_spot'', params = PNone,
                wait_response = True\<rparr>])
   \<and> locate (\<lambda>log r. Inr (PStr ''ok''))
     \<lparr>self_name = PNone, self_device = [(PStr ''duid'', PStr ''abc123'')], self_status = []\<rparr> []
   = (Inr (), [\<lparr>device_id = PStr ''abc123'', command = PStr ''find_me'', params = PNone,
                wait_response = True\<rparr>])
   \<and> start_pause (\<lambda>log r. Inr (PStr ''ok''))
     \<lparr>self_name = PNone, self_device = [(PStr ''duid'', PStr ''abc123'')], self_status = []\<rparr> []
   = (Inr (), [\<lparr>device_id = PStr ''abc123'', command = PStr ''app_pause'', params = PNone,
                wait_response = True\<rparr>])"
  using commands_forward_one_keyword
    [of "\<lambda>log r. Inr (PStr ''ok'')"
        "\<lparr>self_name = PNone, self_device = [(PStr ''duid'', PStr ''abc123'')],
           self_status = []\<rparr>" "[]"]
  by (simp add: dict_get_def prod_eq_iff)

text \<open>
  The claim C9 as stated, that only \<open>start_pause\<close> sends \<open>app_pause\<close>, fails on the
  passthrough: \<open>send_command\<close> with the command \<open>app_pause\<close> sends the very request
  that \<open>start_pause\<close> sends.
\<close>

theorem send_command_app_pause_counterexample:
  "snd (send_command (\<lambda>log r. Inr (PStr ''ok''))
     \<lparr>self_name = PNone, self_device = [(PStr ''duid'', PStr ''abc123'')], self_status = []\<rparr> []
     (PStr ''app_pause'') PNone)
   = [\<lparr>device_id = PStr ''abc123'', command = PStr ''app_pause'', params = PNone,
       wait_response = True\<rparr>]
   \<and> snd (send_command (\<lambda>log r. Inr (PStr ''ok''))
     \<lparr>self_name = PNone, self_device = [(PStr ''duid'', PStr ''abc123'')], self_status = []\<rparr> []
     (PStr ''app_pause'') PNone)
   = snd (start_pause (\<lambda>log r. Inr (PStr ''ok''))
     \<lparr>self_name = PNone, self_device = [(PStr ''duid'', PStr ''abc123'')], self_status = []\<rparr> [])"
  by (simp add: send_command_def start_pause_def send_eq discard_result_snd dict_get_def)

text \<open>
  C9, amended. \<open>pause\<close> and \<open>stop\<close> are the same function: both send \<open>app_stop\<close> with
  no parameters. \<open>start_pause\<close> sends \<open>app_pause\<close>; no other operation with a keyword
  of its own does (the one request that each of them adds to the log carries another
  keyword); and the passthrough \<open>send_command\<close> sends the one request that carries its
  caller's command and parameters, so it sends \<open>app_pause\<close> exactly when that is the
  command it is given.
\<close>

theorem pause_equals_stop:
  "pause = stop
   \<and> snd (pause cl self log) = log @ [sent self ''app_stop'' PNone]
   \<and> snd (stop cl self log) = log @ [sent self ''app_stop'' PNone]
   \<and> fst (pause cl self log) = fst (stop cl self log)
   \<and> snd (start_pause cl self log) = log @ [sent self ''app_pause'' PNone]
   \<and> (\<forall>op \<in> {start, pause, stop, return_to_base, clean_spot, locate}.
         \<exists>r. snd (op cl self log) = log @ [r] \<and> command r \<noteq> PStr ''app_pause'')
   \<and> (\<exists>r. snd (set_fan_speed FAN_SPEEDS cl self log speed) = log @ [r]
          \<and> command r \<noteq> PStr ''app_pause'')
   \<and> (\<exists>r. snd (map' cl self log) = log @ [r] \<and> command r \<noteq> PStr ''app_pause'')
   \<and> (\<exists>r. snd (snd (update cl self log)) = log @ [r] \<and> command r \<noteq> PStr ''app_pause'')
   \<and> snd (send_command cl self log cmd ps) =
       log @ [\<lparr>device_id = dict_get (self_device self) ''duid'', command = cmd, params = ps,
                wait_response = True\<rparr>]
   \<and> (\<exists>r. snd (send_command cl self log cmd ps) = log @ [r]
          \<and> (command r = PStr ''app_pause'' \<longleftrightarrow> cmd = PStr ''app_pause''))"
proof -
  have same: "pause = stop"
    by (intro ext) (simp add: pause_def stop_def)
  have upd: "snd (snd (update cl self log)) = log @ [sent self ''get_status'' PNone]"
    by (simp add: update_def send_eq split: sum.split)
  have fixed: "\<forall>op \<in> {start, pause, stop, return_to_base, clean_spot, locate}.
         \<exists>r. snd (op cl self log) = log @ [r] \<and> command r \<noteq> PStr ''app_pause''"
    by (simp add: start_def pause_def stop_def return_to_base_def clean_spot_def locate_def
        fixed_command_log)
  have fan: "\<exists>r. snd (set_fan_speed FAN_SPEEDS cl self log speed) = log @ [r]
          \<and> command r \<noteq> PStr ''app_pause''"
    by (simp add: set_fan_speed_def fixed_command_log)
  have mp: "\<exists>r. snd (map' cl self log) = log @ [r] \<and> command r \<noteq> PStr ''app_pause''"
    by (simp add: map'_def send_eq)
  have pass: "snd (send_command cl self log cmd ps) =
       log @ [\<lparr>device_id = dict_get (self_device self) ''duid'', command = cmd, params = ps,
                wait_response = True\<rparr>]"
    by (simp add: send_command_forwards)
  have pass': "\<exists>r. snd (send_command cl self log cmd ps) = log @ [r]
          \<and> (command r = PStr ''app_pause'' \<longleftrightarrow> cmd = PStr ''app_pause'')"
    by (simp add: send_command_forwards)
  have upd': "\<exists>r. snd (snd (update cl self log)) = log @ [r]
          \<and> command r \<noteq> PStr ''app_pause''"
    by (simp add: upd)
  have p: "snd (pause cl self log) = log @ [sent self ''app_stop'' PNone]"
    by (simp add: pause_def fixed_command_log)
  have s: "snd (stop cl self log) = log @ [sent self ''app_stop'' PNone]"
    by (simp add: stop_def fixed_command_log)
  have ps: "fst (pause cl self log) = fst (stop cl self log)"
    by (simp add: same)
  have sp: "snd (start_pause cl self log) = log @ [sent self ''app_pause'' PNone]"
    by (simp add: start_pause_def fixed_command_log)
  show ?thesis
    by (intro conjI same p s ps sp fixed fan mp upd' pass pass')
qed

theorem pause_equals_stop_witness:
  "pause (\<lambda>log r. Inr (PStr ''ok''))
     \<lparr>self_name = PNone, self_device = [(PStr ''duid'', PStr ''abc123'')], self_status = []\<rparr> []
   = stop (\<lambda>log r. Inr (PStr ''ok''))
     \<lparr>self_name = PNone, self_device = [(PStr ''duid'', PStr ''abc123'')], self_status = []\<rparr> []
   \<and> snd (pause (\<lambda>log r. Inr (PStr ''ok''))
     \<lparr>self_name = PNone, self_device = [(PStr ''duid'', PStr ''abc123'')], self_status = []\<rparr> [])
   = [\<lparr>device_id = PStr ''abc123'', command = PStr ''app_stop'', params = PNone,
       wait_response = True\<rparr>]
   \<and> snd (start_pause (\<lambda>log r. Inr (PStr ''ok''))
     \<lparr>self_name = PNone, self_device = [(PStr ''duid'', PStr ''abc123'')], self_status = []\<rparr> [])
   = [\<lparr>device_id = PStr ''abc123'', command = PStr ''app_pause'', params = PNone,
       wait_response = True\<rparr>]
   \<and> snd (send_command (\<lambda>log r. Inr (PStr ''ok''))
     \<lparr>self_name = PNone, self_device = [(PStr ''duid'', PStr ''abc123'')], self_status = []\<rparr> []
     (PStr ''app_goto_target'') (PList [PInt 25500, PInt 25500]))
   = [\<lparr>device_id = PStr ''abc123'', command = PStr ''app_goto_target'',
       params = PList [PInt 25500, PInt 25500], wait_response = True\<rparr>]"
  using pause_equals_stop
    [of "\<lambda>log r. Inr (PStr ''ok'')"
        "\<lparr>self_name = PNone, self_device = [(PStr ''duid'', PStr ''abc123'')],
           self_status = []\<rparr>" "[]" _ _ "PStr ''app_goto_target''"
        "PList [PInt 25500, PInt 25500]"]
  by (simp add: dict_get_def)

section \<open>The map token\<close>

text \<open>
  C7. Reading \<open>map\<close> sends one \<open>get_map_v1\<close> request and returns what the client
  answers to it, as it is. The entity keeps nothing of the answer: a second read sends a
  second request, and returns what the client answers to that one.
\<close>

theorem map_reads_are_not_cached:
  "map' cl self log =
     (cl log (sent self ''get_map_v1'' PNone), log @ [sent self ''get_map_v1'' PNone])
   \<and> map' cl self (snd (map' cl self log)) =
     (cl (log @ [sent self ''get_map_v1'' PNone]) (sent self ''get_map_v1'' PNone),
      log @ [sent self ''get_map_v1'' PNone, sent self ''get_map_v1'' PNone])"
  by (simp add: map'_def send_eq)

theorem map_reads_are_not_cached_witness:
  "map' (\<lambda>log r. Inr (PInt (int (length log))))
     \<lparr>self_name = PNone, self_device = [(PStr ''duid'', PStr ''abc123'')], self_status = []\<rparr> []
   = (Inr (PInt 0),
      [\<lparr>device_id = PStr ''abc123'', command = PStr ''get_map_v1'', params = PNone,
        wait_response = True\<rparr>])
   \<and> map' (\<lambda>log r. Inr (PInt (int (length log))))
     \<lparr>self_name = PNone, self_device = [(PStr ''duid'', PStr ''abc123'')], self_status = []\<rparr>
     [\<lparr>device_id = PStr ''abc123'', command = PStr ''get_map_v1'', params = PNone,
        wait_response = True\<rparr>]
   = (Inr (PInt 1),
      [\<lparr>device_id = PStr ''abc123'', command = PStr ''get_map_v1'', params = PNone,
        wait_response = True\<rparr>,
       \<lparr>device_id = PStr ''abc123'', command = PStr ''get_map_v1'', params = PNone,
        wait_response = True\<rparr>])"
  using map_reads_are_not_cached
    [of "\<lambda>log r. Inr (PInt (int (length log)))"
        "\<lparr>self_name = PNone, self_device = [(PStr ''duid'', PStr ''abc123'')],
           self_status = []\<rparr>" "[]"]
  by (auto simp: dict_get_def)

section \<open>The supported features\<close>

lemma supported_features_union:
  assumes "\<forall>f g. f \<noteq> g \<longrightarrow> flag f AND flag g = 0"
  shows "supported_features flag self =
       (flag TURN_ON OR flag TURN_OFF OR flag PAUSE OR flag STOP OR flag RETURN_HOME
        OR flag FAN_SPEED OR flag BATTERY OR flag STATUS OR flag SEND_COMMAND OR flag LOCATE
        OR flag CLEAN_SPOT OR flag STATE OR flag START OR flag MAP)"
  using assms
  by (simp add: supported_features_def disjunctive_add_eq_or bit.conj_disj_distrib2 or.assoc)

lemma supported_features_has_flag:
  assumes "\<forall>f g. f \<noteq> g \<longrightarrow> flag f AND flag g = 0"
  shows "supported_features flag self AND flag f = flag f"
  unfolding supported_features_union [OF assms]
  using assms by (cases f) (simp_all add: bit.conj_disj_distrib2)

lemma VacuumEntityFeature_value_disjoint:
  "\<forall>f g. f \<noteq> g \<longrightarrow> VacuumEntityFeature_value f AND VacuumEntityFeature_value g = 0"
proof (intro allI impI)
  fix f g :: VacuumEntityFeature
  assume "f \<noteq> g"
  then show "VacuumEntityFeature_value f AND VacuumEntityFeature_value g = 0"
    by (cases f; cases g) simp_all
qed

text \<open>
  C8. \<open>supported_features\<close> is one value, the same for every entity (descriptor and
  snapshot). Whenever the flags of the enumeration are bit masks with no bit in common,
  as the members of a flag enumeration are, that value is the bitwise union of exactly
  the fourteen flags that the source adds up (turn on, turn off, pause, stop, return
  home, fan speed, battery, status, send command, locate, clean spot, state, start,
  map), and every one of these flags is set in it. With the host platform's values it
  is 16383.
\<close>

theorem supported_features_fixed:
  assumes "\<forall>f g. f \<noteq> g \<longrightarrow> flag f AND flag g = 0"
  shows "supported_features flag self = supported_features flag other
   \<and> supported_features flag self =
       (flag TURN_ON OR flag TURN_OFF OR flag PAUSE OR flag STOP OR flag RETURN_HOME
        OR flag FAN_SPEED OR flag BATTERY OR flag STATUS OR flag SEND_COMMAND OR flag LOCATE
        OR flag CLEAN_SPOT OR flag STATE OR flag START OR flag MAP)
   \<and> (\<forall>f \<in> {TURN_ON, TURN_OFF, PAUSE, STOP, RETURN_HOME, FAN_SPEED, BATTERY, STATUS,
              SEND_COMMAND, LOCATE, CLEAN_SPOT, STATE, START, MAP}.
         supported_features flag self AND flag f = flag f)"
proof (intro conjI ballI)
  show "supported_features flag self = supported_features flag other"
    by (simp add: supported_features_def)
  show "supported_features flag self =
       (flag TURN_ON OR flag TURN_OFF OR flag PAUSE OR flag STOP OR flag RETURN_HOME
        OR flag FAN_SPEED OR flag BATTERY OR flag STATUS OR flag SEND_COMMAND OR flag LOCATE
        OR flag CLEAN_SPOT OR flag STATE OR flag START OR flag MAP)"
    by (rule supported_features_union [OF assms])
  show "supported_features flag self AND flag f = flag f" for f
    by (rule supported_features_has_flag [OF assms])
qed

theorem supported_features_fixed_witness:
  "supported_features VacuumEntityFeature_value
     \<lparr>self_name = PNone, self_device = [(PStr ''duid'', PStr ''abc123'')], self_status = []\<rparr>
   = 16383
   \<and> supported_features VacuumEntityFeature_value
     \<lparr>self_name = PStr ''Rocky'', self_device = [], self_status = [(PStr ''state'', PInt 8)]\<rparr>
   = 16383"
  using
    supported_features_fixed [OF VacuumEntityFeature_value_disjoint,
      of "\<lparr>self_name = PNone, self_device = [(PStr ''duid'', PStr ''abc123'')],
           self_status = []\<rparr>"
        "\<lparr>self_name = PStr ''Rocky'', self_device = [],
           self_status = [(PStr ''state'', PInt 8)]\<rparr>"]
  by auto

section \<open>Fan speeds\<close>

lemma matching_codes_comprehension:
  "[PInt k. (k, v) \<leftarrow> T, v = L] = map PInt (map fst (filter (\<lambda>(k, v). v = L) T))"
  by (induction T) auto

lemma matching_codes_by_lookup:
  assumes "distinct (map fst T)"
  shows "map fst (filter (\<lambda>(k, v). v = L) T) = filter (\<lambda>k. map_of T k = Some L) (map fst T)"
proof -
  have "filter (\<lambda>p. map_of T (fst p) = Some L) T = filter (\<lambda>(k, v). v = L) T"
  proof (rule filter_cong)
    fix p assume "p \<in> set T"
    with assms show "(map_of T (fst p) = Some L) = (case p of (k, v) \<Rightarrow> v = L)"
      by (cases p) (auto dest: eq_key_imp_eq_value)
  qed simp
  then show ?thesis
    by (simp add: filter_map comp_def)
qed

lemma labels_distinct_iff:
  assumes "distinct (map fst T)"
  shows "distinct (map snd T) \<longleftrightarrow>
         (\<forall>k k' l. map_of T k = Some l \<and> map_of T k' = Some l \<longrightarrow> k = k')"
proof -
  from assms have dT: "distinct T"
    by (rule distinct_map [THEN iffD1, THEN conjunct1])
  have "distinct (map snd T) \<longleftrightarrow> inj_on snd (set T)"
    using dT by (simp add: distinct_map)
  also have "\<dots> \<longleftrightarrow> (\<forall>k k' l. (k, l) \<in> set T \<and> (k', l) \<in> set T \<longrightarrow> k = k')"
    unfolding inj_on_def by (fastforce simp: prod_eq_iff)
  finally show ?thesis
    using assms by simp
qed

text \<open>
  C2. For a table with distinct codes (a dictionary) and any label \<open>L\<close>,
  \<open>set_fan_speed\<close> adds exactly one request to the client's log: the keyword
  \<open>set_custom_mode\<close> with, as parameters, the list of the codes \<open>k\<close> of the table, in
  table order, such that the table maps \<open>k\<close> to \<open>L\<close>. When no code maps to \<open>L\<close> that
  list is empty.
\<close>

theorem set_fan_speed_sends_matching_codes:
  assumes "distinct (map fst FAN_SPEEDS)"
  shows "snd (set_fan_speed FAN_SPEEDS cl self log L) =
           log @ [sent self ''set_custom_mode''
                    (PList (map PInt (filter (\<lambda>k. map_of FAN_SPEEDS k = Some L)
                                             (map fst FAN_SPEEDS))))]
         \<and> ((\<forall>k. map_of FAN_SPEEDS k \<noteq> Some L) \<longrightarrow>
              snd (set_fan_speed FAN_SPEEDS cl self log L) =
                log @ [sent self ''set_custom_mode'' (PList [])])"
proof -
  have sent_codes: "snd (set_fan_speed FAN_SPEEDS cl self log L) =
      log @ [sent self ''set_custom_mode''
               (PList (map PInt (filter (\<lambda>k. map_of FAN_SPEEDS k = Some L)
                                        (map fst FAN_SPEEDS))))]"
    unfolding set_fan_speed_def fixed_command_log matching_codes_comprehension
      matching_codes_by_lookup [OF assms] ..
  moreover have "filter (\<lambda>k. map_of FAN_SPEEDS k = Some L) (map fst FAN_SPEEDS) = []"
    if "\<forall>k. map_of FAN_SPEEDS k \<noteq> Some L"
    using that by (simp add: filter_empty_conv)
  ultimately show ?thesis
    by simp
qed

theorem set_fan_speed_sends_matching_codes_witness:
  "snd (set_fan_speed [(101, ''Quiet''), (103, ''Turbo''), (105, ''Turbo'')]
         (\<lambda>log r. Inr (PStr ''ok''))
         \<lparr>self_name = PNone, self_device = [(PStr ''duid'', PStr ''abc123'')],
          self_status = []\<rparr> [] ''Turbo'')
   = [\<lparr>device_id = PStr ''abc123'', command = PStr ''set_custom_mode'',
       params = PList [PInt 103, PInt 105], wait_response = True\<rparr>]
   \<and> snd (set_fan_speed [(101, ''Quiet''), (103, ''Turbo''), (105, ''Turbo'')]
         (\<lambda>log r. Inr (PStr ''ok''))
         \<lparr>self_name = PNone, self_device = [(PStr ''duid'', PStr ''abc123'')],
          self_status = []\<rparr> [] ''NoSuchLabel'')
   = [\<lparr>device_id = PStr ''abc123'', command = PStr ''set_custom_mode'',
       params = PList [], wait_response = True\<rparr>]"
proof -
  have d: "distinct (map fst [(101::int, ''Quiet''), (103, ''Turbo''), (105, ''Turbo'')])"
    by simp
  show ?thesis
    using
      set_fan_speed_sends_matching_codes [OF d, of "\<lambda>log r. Inr (PStr ''ok'')"
        "\<lparr>self_name = PNone, self_device = [(PStr ''duid'', PStr ''abc123'')],
           self_status = []\<rparr>" "[]" "''Turbo''"]
      set_fan_speed_sends_matching_codes [OF d, of "\<lambda>log r. Inr (PStr ''ok'')"
        "\<lparr>self_name = PNone, self_device = [(PStr ''duid'', PStr ''abc123'')],
           self_status = []\<rparr>" "[]" "''NoSuchLabel''"]
    by (simp add: dict_get_def)
qed

text \<open>
  The claim C3 as stated, that the list of fan speeds has no duplicate for every table,
  fails on a table in which two codes share a label.
\<close>

theorem fan_speed_list_duplicates_counterexample:
  "fan_speed_list [(101, ''Quiet''), (102, ''Quiet'')]
     \<lparr>self_name = PNone, self_device = [], self_status = []\<rparr> = [''Quiet'', ''Quiet'']
   \<and> \<not> distinct (fan_speed_list [(101, ''Quiet''), (102, ''Quiet'')]
     \<lparr>self_name = PNone, self_device = [], self_status = []\<rparr>)"
  by (simp add: fan_speed_list_def)

text \<open>
  C3, amended. For a table with distinct codes, \<open>fan_speed_list\<close> is the list of the
  labels of the table in table order, one entry for each code: its entries are the
  labels that the table gives its codes, code by code. So the set of its entries is
  exactly the set of the labels of the table, and it is free of duplicates exactly when
  no two codes of the table share a label.
\<close>

theorem fan_speed_list_labels:
  assumes "distinct (map fst FAN_SPEEDS)"
  shows "map Some (fan_speed_list FAN_SPEEDS self) = map (map_of FAN_SPEEDS) (map fst FAN_SPEEDS)
         \<and> set (fan_speed_list FAN_SPEEDS self) = ran (map_of FAN_SPEEDS)
         \<and> length (fan_speed_list FAN_SPEEDS self) = length FAN_SPEEDS
         \<and> (distinct (fan_speed_list FAN_SPEEDS self) \<longleftrightarrow>
              (\<forall>k k' l. map_of FAN_SPEEDS k = Some l \<and> map_of FAN_SPEEDS k' = Some l
                  \<longrightarrow> k = k'))"
proof -
  have "map Some (map snd FAN_SPEEDS) = map (map_of FAN_SPEEDS) (map fst FAN_SPEEDS)"
    using assms by (simp add: prod_eq_iff)
  then show ?thesis
    using labels_distinct_iff [OF assms] ran_distinct [OF assms]
    by (simp add: fan_speed_list_def)
qed

theorem fan_speed_list_labels_witness:
  "distinct (map fst [(101::int, ''Quiet''), (102, ''Balanced''), (103, ''Quiet'')])
   \<and> map Some (fan_speed_list [(101, ''Quiet''), (102, ''Balanced''), (103, ''Quiet'')]
            \<lparr>self_name = PNone, self_device = [], self_status = []\<rparr>)
     = [Some ''Quiet'', Some ''Balanced'', Some ''Quiet'']
   \<and> fan_speed_list [(101, ''Quiet''), (102, ''Balanced''), (103, ''Quiet'')]
            \<lparr>self_name = PNone, self_device = [], self_status = []\<rparr>
     = [''Quiet'', ''Balanced'', ''Quiet'']"
proof -
  have d: "distinct (map fst [(101::int, ''Quiet''), (102, ''Balanced''), (103, ''Quiet'')])"
    by simp
  note t = fan_speed_list_labels
    [OF d, of "\<lparr>self_name = PNone, self_device = [], self_status = []\<rparr>", THEN conjunct1]
  have m: "map (map_of [(101::int, ''Quiet''), (102, ''Balanced''), (103, ''Quiet'')])
             (map fst [(101::int, ''Quiet''), (102, ''Balanced''), (103, ''Quiet'')])
           = [Some ''Quiet'', Some ''Balanced'', Some ''Quiet'']"
    by simp
  have s: "map Some (fan_speed_list [(101, ''Quiet''), (102, ''Balanced''), (103, ''Quiet'')]
            \<lparr>self_name = PNone, self_device = [], self_status = []\<rparr>)
     = [Some ''Quiet'', Some ''Balanced'', Some ''Quiet'']"
    using t unfolding m .
  then have "map Some (fan_speed_list [(101, ''Quiet''), (102, ''Balanced''), (103, ''Quiet'')]
            \<lparr>self_name = PNone, self_device = [], self_status = []\<rparr>)
     = map Some [''Quiet'', ''Balanced'', ''Quiet'']"
    by simp
  then have "fan_speed_list [(101, ''Quiet''), (102, ''Balanced''), (103, ''Quiet'')]
            \<lparr>self_name = PNone, self_device = [], self_status = []\<rparr>
     = [''Quiet'', ''Balanced'', ''Quiet'']"
    by (simp only: inj_map_eq_map [OF inj_Some])
  with d s show ?thesis
    by (simp only: simp_thms)
qed

section \<open>The status label\<close>

text \<open>
  The claim C5 as stated, that the status never raises whatever the snapshot is, fails on
  a snapshot whose state is a list: the table lookup cannot hash it.
\<close>

theorem status_unhashable_counterexample:
  "status [(8, ''charging'')]
     \<lparr>self_name = PNone, self_device = [], self_status = [(PStr ''state'', PList [])]\<rparr>
   = Inl TypeError"
  by (simp add: status_def table_get_def dict_get_def)

text \<open>
  C5, amended. For a snapshot whose state is missing or hashable (\<^verbatim>\<open>None\<close>, a boolean,
  an integer or a string) the status does not raise, and it is \<^verbatim>\<open>None\<close> whenever the
  state equals no key of the table: for the empty snapshot, for a snapshot with no state
  entry, for the state \<^verbatim>\<open>None\<close>, for any string, for an integer that is not a key, and
  for a boolean whose integer value (1 for true, 0 for false) is not a key. When the
  state equals a key, the status is the label of that key. For an unhashable state, a
  list or a dictionary, the status raises \<^verbatim>\<open>TypeError\<close>.
\<close>

theorem status_absent_for_unknown_code:
  "(hashable (dict_get (self_status self) ''state'') \<longrightarrow> (\<exists>r. status T self = Inr r))
   \<and> (self_status self = [] \<longrightarrow> status T self = Inr None)
   \<and> (map_of (self_status self) (PStr ''state'') = None \<longrightarrow> status T self = Inr None)
   \<and> (dict_get (self_status self) ''state'' = PNone \<longrightarrow> status T self = Inr None)
   \<and> (\<forall>s. dict_get (self_status self) ''state'' = PStr s \<longrightarrow> status T self = Inr None)
   \<and> (\<forall>i. dict_get (self_status self) ''state'' = PInt i \<and> i \<notin> fst ` set T
          \<longrightarrow> status T self = Inr None)
   \<and> (\<forall>b. dict_get (self_status self) ''state'' = PBool b
            \<and> (if b then 1 else 0) \<notin> fst ` set T
          \<longrightarrow> status T self = Inr None)
   \<and> (\<forall>i l. dict_get (self_status self) ''state'' = PInt i \<and> map_of T i = Some l
          \<longrightarrow> status T self = Inr (Some l))
   \<and> (\<forall>b l. dict_get (self_status self) ''state'' = PBool b
            \<and> map_of T (if b then 1 else 0) = Some l
          \<longrightarrow> status T self = Inr (Some l))
   \<and> (\<forall>xs. dict_get (self_status self) ''state'' = PList xs
          \<longrightarrow> status T self = Inl TypeError)
   \<and> (\<forall>d. dict_get (self_status self) ''state'' = PDict d
          \<longrightarrow> status T self = Inl TypeError)"
proof -
  have absent: "map_of T k = None" if "k \<notin> fst ` set T" for k
    using that by (simp add: map_of_eq_None_iff)
  show ?thesis
    unfolding status_def table_get_def
    by (intro conjI allI impI) (auto simp: dict_get_def absent)
qed

theorem status_absent_for_unknown_code_witness:
  "status [(8, ''charging'')]
     \<lparr>self_name = PNone, self_device = [], self_status = []\<rparr> = Inr None
   \<and> status [(8, ''charging'')]
     \<lparr>self_name = PNone, self_device = [], self_status = [(PStr ''state'', PInt 3)]\<rparr>
     = Inr None
   \<and> status [(8, ''charging'')]
     \<lparr>self_name = PNone, self_device = [], self_status = [(PStr ''state'', PStr ''idle'')]\<rparr>
     = Inr None
   \<and> status [(8, ''charging'')]
     \<lparr>self_name = PNone, self_device = [], self_status = [(PStr ''state'', PBool True)]\<rparr>
     = Inr None
   \<and> status [(8, ''charging'')]
     \<lparr>self_name = PNone, self_device = [], self_status = [(PStr ''state'', PInt 8)]\<rparr>
     = Inr (Some ''charging'')"
  using
    status_absent_for_unknown_code [of "\<lparr>self_name = PNone, self_device = [], self_status = []\<rparr>"
      "[(8, ''charging'')]"]
    status_absent_for_unknown_code
      [of "\<lparr>self_name = PNone, self_device = [], self_status = [(PStr ''state'', PInt 3)]\<rparr>"
      "[(8, ''charging'')]"]
    status_absent_for_unknown_code
      [of "\<lparr>self_name = PNone, self_device = [], self_status = [(PStr ''state'', PStr ''idle'')]\<rparr>"
      "[(8, ''charging'')]"]
    status_absent_for_unknown_code
      [of "\<lparr>self_name = PNone, self_device = [], self_status = [(PStr ''state'', PBool True)]\<rparr>"
      "[(8, ''charging'')]"]
    status_absent_for_unknown_code
      [of "\<lparr>self_name = PNone, self_device = [], self_status = [(PStr ''state'', PInt 8)]\<rparr>"
      "[(8, ''charging'')]"]
  by (auto simp: dict_get_def)

end
